theory Spec2Isabelle
  imports Main
begin

section \<open>Data model\<close>

text \<open>
  The \<^verbatim>\<open>Species\<close> interface, declared identically in both source files.
  The fields \<^verbatim>\<open>id\<close> and \<^verbatim>\<open>image\<close> carry a prime because HOL already has
  constants of those names. A JavaScript string is a sequence of code units; each
  \<^typ>\<open>char\<close> stands for one code unit.
\<close>

datatype kingdom = Animalia | Plantae | Fungi | Protista | Archaea | Bacteria

text \<open>
  A JavaScript \<^verbatim>\<open>number\<close> as far as this program produces one: \<^verbatim>\<open>parseInt\<close>
  returns an integer or NaN, and the population column holds integers. Fractions
  are not represented.
\<close>

datatype jsnumber = NaN | Num int

record Species =
  id' :: int
  author :: string
  scientific_name :: string
  common_name :: "string option"
  kingdom :: kingdom
  total_population :: "jsnumber option"
  description :: "string option"
  image' :: "string option"

text \<open>\<^verbatim>\<open>type FormData = z.infer<typeof speciesSchema>\<close>: the validated form data.\<close>

record FormData =
  data_scientific_name :: string
  data_common_name :: "string option"
  data_kingdom :: kingdom
  data_total_population :: "jsnumber option"
  data_description :: "string option"

section \<open>JavaScript built-ins used by the components\<close>

text \<open>
  White space as \<^verbatim>\<open>String.prototype.trim\<close> and \<^verbatim>\<open>parseInt\<close> skip it, for the
  code units below 256: TAB, LF, VT, FF, CR, SP and NBSP.
\<close>

definition StrWhiteSpaceChar :: "char \<Rightarrow> bool" where
  "StrWhiteSpaceChar c \<longleftrightarrow>
     c = CHR 0x09 \<or> c = CHR 0x0A \<or> c = CHR 0x0B \<or> c = CHR 0x0C \<or> c = CHR 0x0D \<or>
     c = CHR 0x20 \<or> c = CHR 0xA0"

definition trim :: "string \<Rightarrow> string" where
  "trim s = rev (dropWhile StrWhiteSpaceChar (rev (dropWhile StrWhiteSpaceChar s)))"

text \<open>\<^verbatim>\<open>s.slice(0, n)\<close> for \<^verbatim>\<open>n \<ge> 0\<close>: the first \<^verbatim>\<open>n\<close> code units, or all of \<^verbatim>\<open>s\<close>.\<close>

definition slice0 :: "nat \<Rightarrow> string \<Rightarrow> string" where
  "slice0 n s = take n s"

definition is_digit :: "char \<Rightarrow> bool" where
  "is_digit c \<longleftrightarrow> (48::nat) \<le> of_char c \<and> of_char c \<le> (57::nat)"

definition digit_value :: "char \<Rightarrow> int" where
  "digit_value c = int (of_char c) - 48"

definition digits_value :: "string \<Rightarrow> int" where
  "digits_value ds = foldl (\<lambda>a c. 10 * a + digit_value c) 0 ds"

text \<open>
  \<^verbatim>\<open>parseInt(value, 10)\<close>: skip leading white space, read an optional sign, then the
  longest prefix of decimal digits; NaN when that prefix is empty. (With radix 10 no
  \<^verbatim>\<open>0x\<close> prefix is recognised.) The rounding of integers beyond \<open>2^53\<close> is
  not modelled.
\<close>

definition parseInt10 :: "string \<Rightarrow> jsnumber" where
  "parseInt10 value =
     (let t = dropWhile StrWhiteSpaceChar value;
          neg = (case t of c # _ \<Rightarrow> c = CHR ''-'' | [] \<Rightarrow> False);
          u = (case t of c # r \<Rightarrow> if c = CHR ''-'' \<or> c = CHR ''+'' then r else t | [] \<Rightarrow> t);
          ds = takeWhile is_digit u
      in if ds = [] then NaN
         else Num ((if neg then - 1 else 1) * digits_value ds))"

text \<open>The decimal digits of a natural number.\<close>

fun digits_of :: "nat \<Rightarrow> string" where
  "digits_of n =
     (if n < 10 then [''0123456789'' ! n]
      else digits_of (n div 10) @ [''0123456789'' ! (n mod 10)])"

declare digits_of.simps [simp del]

text \<open>
  The values that reach \<^verbatim>\<open>setValueAs\<close> at run time, whatever its parameter's declared
  type: \<^verbatim>\<open>null\<close>, a string or a number. \<^verbatim>\<open>ToString\<close> is the conversion that
  \<^verbatim>\<open>parseInt\<close> applies to its argument first; for an integer it is the decimal
  numeral (the exponent notation of integers from \<open>10^21\<close> on is not modelled).
\<close>

datatype js_value = Null | Str string | Number jsnumber

fun ToString :: "js_value \<Rightarrow> string" where
  "ToString Null = ''null''"
| "ToString (Str s) = s"
| "ToString (Number NaN) = ''NaN''"
| "ToString (Number (Num n)) = (if n < 0 then ''-'' else []) @ digits_of (nat \<bar>n\<bar>)"

text \<open>\<^verbatim>\<open>ToBoolean\<close> on a value of type \<^verbatim>\<open>string | null\<close> and \<^verbatim>\<open>number | null\<close>.\<close>

fun truthy_string :: "string option \<Rightarrow> bool" where
  "truthy_string None = False"
| "truthy_string (Some s) = (s \<noteq> [])"

fun truthy_number :: "jsnumber option \<Rightarrow> bool" where
  "truthy_number None = False"
| "truthy_number (Some NaN) = False"
| "truthy_number (Some (Num n)) = (n \<noteq> 0)"

section \<open>Effects\<close>

text \<open>
  The components act on the world only through React state setters, the Supabase
  client, the toast function, the router and the callback prop. A handler is modelled
  as the list of these calls in the order it makes them.
\<close>

datatype variant = Normal | Destructive

text \<open>\<^verbatim>\<open>toast({ title, description, variant })\<close>\<close>

datatype toast = Toast string string variant

text \<open>Issues reported by the schema; the only custom message is the one of \<^verbatim>\<open>min(1, ...)\<close>.\<close>

datatype issue = TooSmall string | InvalidType | InvalidEnumValue

type_synonym field_errors = "(string \<times> issue) list"

datatype effect =
    SetLoading bool
  | SupabaseUpdate FormData int
  | SupabaseDelete int
  | OnSpeciesUpdated Species
  | ToastCall toast
  | SetOpen bool
  | SetConfirmDelete bool
  | RouterRefresh
  | SetFieldErrors field_errors

text \<open>
  What a \<^verbatim>\<open>catch (error: unknown)\<close> clause can receive: an instance of \<^verbatim>\<open>Error\<close> with
  its message, or any other value, which may or may not have a \<^verbatim>\<open>message\<close> property.
\<close>

datatype thrown = ErrorInstance string | NonError "string option"

text \<open>
  The outcome of an awaited Supabase call: \<^verbatim>\<open>{ error: null }\<close>, or a failure. A non-null
  \<^verbatim>\<open>error\<close> is thrown at once by the handler, and a rejected promise throws by itself,
  so both reach the \<^verbatim>\<open>catch\<close> clause with the failure value.
\<close>

datatype remote_result = Succeeded | Failed thrown

section \<open>EditSpeciesDialog\<close>

subsection \<open>Form values and the schema\<close>

text \<open>
  The population field when the form is submitted. Either the user has changed the
  input, and the field holds the text of the input at the last change; or the input
  is as it was when it was registered, with the value from \<^verbatim>\<open>defaultValues\<close> (or the
  value the form kept while the dialog was closed), a \<^verbatim>\<open>number | null\<close>.
\<close>

datatype population_field = Registered "jsnumber option" | Changed string

text \<open>
  The text that the number input shows: what was typed, or the value it was registered
  with, where \<^verbatim>\<open>null\<close> and NaN leave the input empty.
\<close>

fun input_text :: "population_field \<Rightarrow> string" where
  "input_text (Changed t) = t"
| "input_text (Registered None) = []"
| "input_text (Registered (Some NaN)) = []"
| "input_text (Registered (Some (Num n))) = ToString (Number (Num n))"

text \<open>
  What the registered inputs hold when the form is submitted. The text inputs hold a
  string, or still \<^verbatim>\<open>null\<close> from \<^verbatim>\<open>defaultValues\<close>; the select holds the value of
  the chosen option.
\<close>

record form_input =
  in_scientific_name :: string
  in_common_name :: "string option"
  in_kingdom :: string
  in_total_population :: population_field
  in_description :: "string option"

text \<open>The values handed to the resolver, before validation.\<close>

record form_values =
  val_scientific_name :: string
  val_common_name :: "string option"
  val_kingdom :: string
  val_total_population :: "jsnumber option"
  val_description :: "string option"

text \<open>
  \<^verbatim>\<open>setValueAs: (value: string) => (value === "" ? null : parseInt(value, 10))\<close>.
  The comparison is strict, so only the empty string gives \<^verbatim>\<open>null\<close>; every other
  value, \<^verbatim>\<open>null\<close> included, is converted to a string and parsed.
\<close>

definition setValueAs :: "js_value \<Rightarrow> jsnumber option" where
  "setValueAs value = (if value = Str [] then None else Some (parseInt10 (ToString value)))"

text \<open>
  The value of the population field that the form holds: the form library applies
  \<^verbatim>\<open>setValueAs\<close> to the text of the input at a change event, and to the field's own
  value when the input is registered.
\<close>

fun population_value :: "population_field \<Rightarrow> jsnumber option" where
  "population_value (Changed t) = setValueAs (Str t)"
| "population_value (Registered None) = setValueAs Null"
| "population_value (Registered (Some n)) = setValueAs (Number n)"

definition getValues :: "form_input \<Rightarrow> form_values" where
  "getValues inp =
     \<lparr> val_scientific_name = in_scientific_name inp,
       val_common_name = in_common_name inp,
       val_kingdom = in_kingdom inp,
       val_total_population = population_value (in_total_population inp),
       val_description = in_description inp \<rparr>"

text \<open>\<^verbatim>\<open>z.enum(["Animalia", "Plantae", "Fungi", "Protista", "Archaea", "Bacteria"])\<close>\<close>

definition kingdom_enum :: "string \<Rightarrow> kingdom option" where
  "kingdom_enum s =
     (if s = ''Animalia'' then Some Animalia
      else if s = ''Plantae'' then Some Plantae
      else if s = ''Fungi'' then Some Fungi
      else if s = ''Protista'' then Some Protista
      else if s = ''Archaea'' then Some Archaea
      else if s = ''Bacteria'' then Some Bacteria
      else None)"

text \<open>\<^verbatim>\<open>z.string().min(1, { message: "Scientific name is required" })\<close>\<close>

definition check_scientific_name :: "string \<Rightarrow> field_errors" where
  "check_scientific_name s =
     (if length s < 1 then [(''scientific_name'', TooSmall ''Scientific name is required'')]
      else [])"

definition check_kingdom :: "string \<Rightarrow> field_errors" where
  "check_kingdom s =
     (case kingdom_enum s of None \<Rightarrow> [(''kingdom'', InvalidEnumValue)] | Some _ \<Rightarrow> [])"

text \<open>\<^verbatim>\<open>z.number().nullable()\<close>: \<^verbatim>\<open>null\<close> and every number but NaN pass.\<close>

definition check_total_population :: "jsnumber option \<Rightarrow> field_errors" where
  "check_total_population p =
     (case p of Some NaN \<Rightarrow> [(''total_population'', InvalidType)] | _ \<Rightarrow> [])"

text \<open>
  \<^verbatim>\<open>speciesSchema\<close>, parsed the way \<^verbatim>\<open>zodResolver\<close> does: the issues of all fields
  are collected in the order of the object's keys; without issues the parsed data is
  returned. \<^verbatim>\<open>common_name\<close> and \<^verbatim>\<open>description\<close> are \<^verbatim>\<open>z.string().nullable()\<close>, which
  every \<^verbatim>\<open>string | null\<close> passes.
\<close>

definition speciesSchema :: "form_values \<Rightarrow> field_errors + FormData" where
  "speciesSchema v =
     (let errs = check_scientific_name (val_scientific_name v)
               @ check_kingdom (val_kingdom v)
               @ check_total_population (val_total_population v)
      in case (errs, kingdom_enum (val_kingdom v)) of
           ([], Some k) \<Rightarrow>
             Inr \<lparr> data_scientific_name = val_scientific_name v,
                   data_common_name = val_common_name v,
                   data_kingdom = k,
                   data_total_population = val_total_population v,
                   data_description = val_description v \<rparr>
         | _ \<Rightarrow> Inl errs)"

subsection \<open>The submit handler\<close>

text \<open>
  \<^verbatim>\<open>doOnSubmit\<close> runs up to its \<^verbatim>\<open>await\<close>, is suspended, and resumes with the outcome
  of the request. \<^verbatim>\<open>species\<close> is the prop captured by the closure when the handler
  started.
\<close>

definition doOnSubmit_request :: "Species \<Rightarrow> FormData \<Rightarrow> effect list" where
  "doOnSubmit_request species data =
     [SetLoading True,
      SupabaseUpdate
        \<lparr> data_scientific_name = data_scientific_name data,
          data_common_name = data_common_name data,
          data_kingdom = data_kingdom data,
          data_total_population = data_total_population data,
          data_description = data_description data \<rparr>
        (id' species)]"

definition doOnSubmit_resume :: "Species \<Rightarrow> FormData \<Rightarrow> remote_result \<Rightarrow> effect list" where
  "doOnSubmit_resume species data r =
     (case r of
        Succeeded \<Rightarrow>
          [OnSpeciesUpdated
             (species\<lparr> scientific_name := data_scientific_name data,
                       common_name := data_common_name data,
                       kingdom := data_kingdom data,
                       total_population := data_total_population data,
                       description := data_description data \<rparr>),
           ToastCall (Toast ''Species updated''
                        ''The species information has been updated successfully.'' Normal),
           SetOpen False]
      | Failed error \<Rightarrow>
          (case error of
             ErrorInstance message \<Rightarrow>
               [ToastCall (Toast ''Error updating species'' message Destructive)]
           | NonError _ \<Rightarrow> []))
     @ [SetLoading False]"

definition doOnSubmit :: "Species \<Rightarrow> FormData \<Rightarrow> remote_result \<Rightarrow> effect list" where
  "doOnSubmit species data r = doOnSubmit_request species data @ doOnSubmit_resume species data r"

text \<open>
  \<^verbatim>\<open>form.handleSubmit(doOnSubmit)\<close>: the form values go through the resolver; the
  handler runs only on valid data, otherwise the field errors are put into the form
  state.
\<close>

definition handleSubmit :: "Species \<Rightarrow> form_input \<Rightarrow> remote_result \<Rightarrow> effect list" where
  "handleSubmit species inp r =
     (case speciesSchema (getValues inp) of
        Inl errs \<Rightarrow> [SetFieldErrors errs]
      | Inr data \<Rightarrow> doOnSubmit species data r)"

section \<open>SpeciesCard\<close>

subsection \<open>Number formatting\<close>

text \<open>
  \<^verbatim>\<open>Number.prototype.toLocaleString()\<close> on an integer, with the runtime's locale taken
  to be en-US: decimal digits in groups of three, separated by commas.
\<close>

fun commas :: "string \<Rightarrow> string" where
  "commas (a # b # c # d # r) = a # b # c # CHR '','' # commas (d # r)"
| "commas xs = xs"

definition toLocaleString :: "int \<Rightarrow> string" where
  "toLocaleString n =
     (if n < 0 then ''-'' else []) @ rev (commas (rev (digits_of (nat \<bar>n\<bar>))))"

subsection \<open>State\<close>

text \<open>
  A handler suspended at its \<^verbatim>\<open>await\<close>, with the variables its closure captured:
  \<^verbatim>\<open>doOnSubmit\<close> holds the \<^verbatim>\<open>species\<close> prop of the dialog and the form data.
\<close>

datatype suspended = AwaitUpdate Species FormData | AwaitDelete

text \<open>
  The props and \<^verbatim>\<open>useState\<close> cells of \<^verbatim>\<open>SpeciesCard\<close>, the \<^verbatim>\<open>loading\<close> cell and the
  field errors of the \<^verbatim>\<open>EditSpeciesDialog\<close> it contains, and what the collaborators
  have received so far: the requests sent to Supabase, the toasts shown, the number
  of router refreshes. The cell \<^verbatim>\<open>open\<close> is written \<open>open'\<close>.
\<close>

record card_state =
  prop_species :: Species
  prop_sessionId :: string
  open' :: bool
  openEdit :: bool
  confirmDelete :: bool
  currentSpecies :: Species
  loading :: bool
  field_errors :: field_errors
  remote_calls :: "effect list"
  toasts :: "toast list"
  refreshes :: nat
  suspended :: "suspended list"

text \<open>\<^verbatim>\<open>useState(false)\<close> three times and \<^verbatim>\<open>useState<Species>(species)\<close>.\<close>

definition mount :: "Species \<Rightarrow> string \<Rightarrow> card_state" where
  "mount species sessionId =
     \<lparr> prop_species = species, prop_sessionId = sessionId,
       open' = False, openEdit = False, confirmDelete = False,
       currentSpecies = species, loading = False, field_errors = [],
       remote_calls = [], toasts = [], refreshes = 0, suspended = [] \<rparr>"

text \<open>
  How each call acts on the state. The dialog's \<^verbatim>\<open>setOpen\<close> prop is \<^verbatim>\<open>setOpenEdit\<close> and
  its \<^verbatim>\<open>onSpeciesUpdated\<close> prop is \<^verbatim>\<open>handleSpeciesUpdated\<close>, which is
  \<^verbatim>\<open>setCurrentSpecies(updatedSpecies)\<close>.
\<close>

fun apply_effect :: "card_state \<Rightarrow> effect \<Rightarrow> card_state" where
  "apply_effect s (SetLoading b) = s\<lparr>loading := b\<rparr>"
| "apply_effect s (SupabaseUpdate d i) = s\<lparr>remote_calls := remote_calls s @ [SupabaseUpdate d i]\<rparr>"
| "apply_effect s (SupabaseDelete i) = s\<lparr>remote_calls := remote_calls s @ [SupabaseDelete i]\<rparr>"
| "apply_effect s (OnSpeciesUpdated updatedSpecies) = s\<lparr>currentSpecies := updatedSpecies\<rparr>"
| "apply_effect s (ToastCall t) = s\<lparr>toasts := toasts s @ [t]\<rparr>"
| "apply_effect s (SetOpen b) = s\<lparr>openEdit := b\<rparr>"
| "apply_effect s (SetConfirmDelete b) = s\<lparr>confirmDelete := b\<rparr>"
| "apply_effect s RouterRefresh = s\<lparr>refreshes := Suc (refreshes s)\<rparr>"
| "apply_effect s (SetFieldErrors errs) = s\<lparr>field_errors := errs\<rparr>"

definition perform :: "card_state \<Rightarrow> effect list \<Rightarrow> card_state" where
  "perform s effs = foldl apply_effect s effs"

subsection \<open>The delete handler\<close>

definition handleDeleteSpecies_request :: "Species \<Rightarrow> effect list" where
  "handleDeleteSpecies_request cur = [SupabaseDelete (id' cur)]"

definition handleDeleteSpecies_resume :: "remote_result \<Rightarrow> effect list" where
  "handleDeleteSpecies_resume r =
     (case r of
        Succeeded \<Rightarrow>
          [ToastCall (Toast ''Species deleted''
                        ''The species has been deleted successfully.'' Normal),
           RouterRefresh]
      | Failed error \<Rightarrow>
          [ToastCall (Toast ''Error deleting species''
                        (case error of ErrorInstance message \<Rightarrow> message
                                     | NonError _ \<Rightarrow> ''Unknown error'')
                        Destructive)])
     @ [SetConfirmDelete False]"

definition handleDeleteSpecies :: "Species \<Rightarrow> remote_result \<Rightarrow> effect list" where
  "handleDeleteSpecies cur r =
     handleDeleteSpecies_request cur @ handleDeleteSpecies_resume r"

subsection \<open>Rendering\<close>

datatype action =
    ActSetOpen bool
  | ActSetOpenEdit bool
  | ActSetConfirmDelete bool
  | ActHandleDeleteSpecies

text \<open>
  The elements in the rendered output. \<^verbatim>\<open>Field\<close> is a paragraph of the detail dialog,
  a bold label and its value; \<^verbatim>\<open>Input\<close> is a registered form control, with its
  field name; \<^verbatim>\<open>SubmitButton\<close> carries its label and \<^verbatim>\<open>disabled\<close>.
\<close>

datatype node =
    ImageN string string
  | H3 string
  | H4 string
  | P string
  | DialogTitle string
  | Field string string
  | Button string action
  | Label string
  | Input string
  | SubmitButton string bool

text \<open>A dialog's content is in the output only while the dialog is open.\<close>

definition Dialog :: "bool \<Rightarrow> node list \<Rightarrow> node list" where
  "Dialog opn content = (if opn then content else [])"

text \<open>
  \<^verbatim>\<open>currentSpecies.description ? currentSpecies.description.slice(0, 150).trim() + "..." : ""\<close>
\<close>

definition description_preview :: "Species \<Rightarrow> string" where
  "description_preview cur =
     (case description cur of
        Some d \<Rightarrow> if truthy_string (Some d) then trim (slice0 150 d) @ ''...'' else []
      | None \<Rightarrow> [])"

text \<open>
  \<^verbatim>\<open>currentSpecies.total_population ? currentSpecies.total_population.toLocaleString() : "N/A"\<close>
\<close>

definition population_text :: "Species \<Rightarrow> string" where
  "population_text cur =
     (case total_population cur of
        Some (Num n) \<Rightarrow> if truthy_number (Some (Num n)) then toLocaleString n else ''N/A''
      | _ \<Rightarrow> ''N/A'')"

definition kingdom_name :: "kingdom \<Rightarrow> string" where
  "kingdom_name k =
     (case k of Animalia \<Rightarrow> ''Animalia'' | Plantae \<Rightarrow> ''Plantae'' | Fungi \<Rightarrow> ''Fungi''
      | Protista \<Rightarrow> ''Protista'' | Archaea \<Rightarrow> ''Archaea'' | Bacteria \<Rightarrow> ''Bacteria'')"

text \<open>\<^verbatim>\<open>x ?? fallback\<close>\<close>

definition nullish :: "string option \<Rightarrow> string \<Rightarrow> string" where
  "nullish x fallback = (case x of None \<Rightarrow> fallback | Some v \<Rightarrow> v)"

text \<open>
  What \<^verbatim>\<open>EditSpeciesDialog\<close> renders, given its \<^verbatim>\<open>open\<close> prop and its \<^verbatim>\<open>loading\<close> cell:
  the title, a label and a control for each field, and the submit button. The
  component does not read the form's errors, so they are not among its inputs.
\<close>

definition EditSpeciesDialog :: "bool \<Rightarrow> bool \<Rightarrow> node list" where
  "EditSpeciesDialog opn ld =
     Dialog opn
       [DialogTitle ''Edit Species'',
        Label ''Scientific Name'', Input ''scientific_name'',
        Label ''Common Name'', Input ''common_name'',
        Label ''Kingdom'', Input ''kingdom'',
        Label ''Total Population'', Input ''total_population'',
        Label ''Description'', Input ''description'',
        SubmitButton (if ld then ''Updating...'' else ''Update Species'') ld]"

text \<open>What \<^verbatim>\<open>SpeciesCard\<close> renders in a state.\<close>

definition SpeciesCard :: "card_state \<Rightarrow> node list" where
  "SpeciesCard s =
     (let cur = currentSpecies s in
        (if truthy_string (image' cur) then [ImageN (nullish (image' cur) []) (scientific_name cur)]
         else [])
      @ [H3 (scientific_name cur),
         H4 (nullish (common_name cur) []),
         P (description_preview cur),
         Button ''Learn More'' (ActSetOpen True)]
      @ Dialog (open' s)
          [DialogTitle ''Species Details'',
           Field ''Scientific Name:'' (scientific_name cur),
           Field ''Common Name:'' (nullish (common_name cur) ''N/A''),
           Field ''Total Population:'' (population_text cur),
           Field ''Kingdom:'' (kingdom_name (kingdom cur)),
           Field ''Description:'' (nullish (description cur) ''No description provided.'')]
      @ (if author (prop_species s) = prop_sessionId s
         then [Button ''Edit'' (ActSetOpenEdit True),
               Button ''Delete'' (ActSetConfirmDelete True)]
         else [])
      @ EditSpeciesDialog (openEdit s) (loading s)
      @ (if confirmDelete s
         then Dialog (confirmDelete s)
                [DialogTitle ''Are you sure?'',
                 Button ''Cancel'' (ActSetConfirmDelete False),
                 Button ''Delete'' ActHandleDeleteSpecies]
         else []))"

text \<open>The click handlers that a rendered output offers, and whether it can be submitted.\<close>

fun handler_of :: "node \<Rightarrow> action list" where
  "handler_of (Button _ a) = [a]"
| "handler_of _ = []"

definition offered :: "node list \<Rightarrow> action list" where
  "offered ns = concat (map handler_of ns)"

fun enabled_submit :: "node \<Rightarrow> bool" where
  "enabled_submit (SubmitButton _ disabled) = (\<not> disabled)"
| "enabled_submit _ = False"

definition can_submit :: "node list \<Rightarrow> bool" where
  "can_submit ns = list_ex enabled_submit ns"

subsection \<open>Events\<close>

datatype dialog = DetailDialog | EditDialog | ConfirmDialog

text \<open>
  What can happen to a mounted card: a click on a rendered button; a dialog dismissed
  by the user (its \<^verbatim>\<open>onOpenChange(false)\<close>); the edit form submitted with some input;
  a pending request settling; the parent rendering the card again with new props.
\<close>

datatype event =
    Click action
  | Dismiss dialog
  | Submit form_input
  | Settle nat remote_result
  | Rerender Species string

definition on_click :: "card_state \<Rightarrow> action \<Rightarrow> card_state" where
  "on_click s a =
     (case a of
        ActSetOpen b \<Rightarrow> s\<lparr>open' := b\<rparr>
      | ActSetOpenEdit b \<Rightarrow> s\<lparr>openEdit := b\<rparr>
      | ActSetConfirmDelete b \<Rightarrow> s\<lparr>confirmDelete := b\<rparr>
      | ActHandleDeleteSpecies \<Rightarrow>
          (perform s (handleDeleteSpecies_request (currentSpecies s)))
            \<lparr>suspended := suspended s @ [AwaitDelete]\<rparr>)"

definition on_submit :: "card_state \<Rightarrow> form_input \<Rightarrow> card_state" where
  "on_submit s inp =
     (case speciesSchema (getValues inp) of
        Inl errs \<Rightarrow> perform s [SetFieldErrors errs]
      | Inr data \<Rightarrow>
          (perform s (doOnSubmit_request (currentSpecies s) data))
            \<lparr>suspended := suspended s @ [AwaitUpdate (currentSpecies s) data]\<rparr>)"

definition on_settle :: "card_state \<Rightarrow> nat \<Rightarrow> remote_result \<Rightarrow> card_state" where
  "on_settle s i r =
     (let s' = s\<lparr>suspended := take i (suspended s) @ drop (Suc i) (suspended s)\<rparr>
      in case suspended s ! i of
           AwaitUpdate species data \<Rightarrow> perform s' (doOnSubmit_resume species data r)
         | AwaitDelete \<Rightarrow> perform s' (handleDeleteSpecies_resume r))"

text \<open>One event; \<^verbatim>\<open>None\<close> when the event cannot happen in the state.\<close>

definition step :: "card_state \<Rightarrow> event \<Rightarrow> card_state option" where
  "step s e =
     (case e of
        Click a \<Rightarrow> if a \<in> set (offered (SpeciesCard s)) then Some (on_click s a) else None
      | Dismiss d \<Rightarrow>
          (case d of
             DetailDialog \<Rightarrow> if open' s then Some (s\<lparr>open' := False\<rparr>) else None
           | EditDialog \<Rightarrow> if openEdit s then Some (s\<lparr>openEdit := False\<rparr>) else None
           | ConfirmDialog \<Rightarrow> if confirmDelete s then Some (s\<lparr>confirmDelete := False\<rparr>) else None)
      | Submit inp \<Rightarrow> if can_submit (SpeciesCard s) then Some (on_submit s inp) else None
      | Settle i r \<Rightarrow> if i < length (suspended s) then Some (on_settle s i r) else None
      | Rerender species sessionId \<Rightarrow>
          Some (s\<lparr>prop_species := species, prop_sessionId := sessionId\<rparr>))"

fun run :: "card_state \<Rightarrow> event list \<Rightarrow> card_state option" where
  "run s [] = Some s"
| "run s (e # es) = (case step s e of None \<Rightarrow> None | Some s' \<Rightarrow> run s' es)"

section \<open>Observations on handlers and states\<close>

text \<open>The arguments of the calls of one kind that a handler makes, in order.\<close>

fun callback_arg :: "effect \<Rightarrow> Species list" where
  "callback_arg (OnSpeciesUpdated updatedSpecies) = [updatedSpecies]"
| "callback_arg _ = []"

definition callbacks :: "effect list \<Rightarrow> Species list" where
  "callbacks effs = concat (map callback_arg effs)"

fun remote_request :: "effect \<Rightarrow> effect list" where
  "remote_request (SupabaseUpdate d i) = [SupabaseUpdate d i]"
| "remote_request (SupabaseDelete i) = [SupabaseDelete i]"
| "remote_request _ = []"

definition remote_requests :: "effect list \<Rightarrow> effect list" where
  "remote_requests effs = concat (map remote_request effs)"

fun toast_arg :: "effect \<Rightarrow> toast list" where
  "toast_arg (ToastCall t) = [t]"
| "toast_arg _ = []"

definition toast_calls :: "effect list \<Rightarrow> toast list" where
  "toast_calls effs = concat (map toast_arg effs)"

fun setOpen_arg :: "effect \<Rightarrow> bool list" where
  "setOpen_arg (SetOpen b) = [b]"
| "setOpen_arg _ = []"

definition setOpen_calls :: "effect list \<Rightarrow> bool list" where
  "setOpen_calls effs = concat (map setOpen_arg effs)"

fun setLoading_arg :: "effect \<Rightarrow> bool list" where
  "setLoading_arg (SetLoading b) = [b]"
| "setLoading_arg _ = []"

definition setLoading_calls :: "effect list \<Rightarrow> bool list" where
  "setLoading_calls effs = concat (map setLoading_arg effs)"

fun setConfirmDelete_arg :: "effect \<Rightarrow> bool list" where
  "setConfirmDelete_arg (SetConfirmDelete b) = [b]"
| "setConfirmDelete_arg _ = []"

definition setConfirmDelete_calls :: "effect list \<Rightarrow> bool list" where
  "setConfirmDelete_calls effs = concat (map setConfirmDelete_arg effs)"

fun field_error_arg :: "effect \<Rightarrow> field_errors" where
  "field_error_arg (SetFieldErrors errs) = errs"
| "field_error_arg _ = []"

definition shown_field_errors :: "effect list \<Rightarrow> field_errors" where
  "shown_field_errors effs = concat (map field_error_arg effs)"



text \<open>The record that a request is keyed by.\<close>

fun keyed_by :: "int \<Rightarrow> effect \<Rightarrow> bool" where
  "keyed_by i (SupabaseUpdate d j) = (j = i)"
| "keyed_by i (SupabaseDelete j) = (j = i)"
| "keyed_by i _ = False"

text \<open>Two records agree on the fields that the form cannot edit.\<close>

definition same_identity :: "Species \<Rightarrow> Species \<Rightarrow> bool" where
  "same_identity a b \<longleftrightarrow> id' a = id' b \<and> author a = author b \<and> image' a = image' b"

fun captured_ok :: "Species \<Rightarrow> suspended \<Rightarrow> bool" where
  "captured_ok sp0 (AwaitUpdate species data) = same_identity sp0 species"
| "captured_ok sp0 AwaitDelete = True"

text \<open>
  The invariant of a card mounted with the record \<open>sp0\<close>: the cached record and every
  record captured by a suspended submit handler have the identity of \<open>sp0\<close>, and every
  request sent so far is keyed by the id of \<open>sp0\<close>.
\<close>

definition card_inv :: "Species \<Rightarrow> card_state \<Rightarrow> bool" where
  "card_inv sp0 s \<longleftrightarrow>
     same_identity sp0 (currentSpecies s) \<and>
     list_all (captured_ok sp0) (suspended s) \<and>
     list_all (keyed_by (id' sp0)) (remote_calls s)"

subsection \<open>Sample data\<close>

definition lion :: Species where
  "lion = \<lparr> id' = 7, author = ''user-1'', scientific_name = ''Panthera leo'',
            common_name = Some ''Lion'', kingdom = Animalia,
            total_population = Some (Num 20000),
            description = Some ''A large cat of the genus Panthera.'',
            image' = None \<rparr>"

definition lion_edit :: form_input where
  "lion_edit = \<lparr> in_scientific_name = ''Panthera leo leo'',
                 in_common_name = Some ''African lion'',
                 in_kingdom = ''Animalia'',
                 in_total_population = Changed ''23000'',
                 in_description = Some ''Lives in prides.'' \<rparr>"


text \<open>A session: an edit that succeeds, then a delete that fails.\<close>

definition lion_session :: "event list" where
  "lion_session =
     [Click (ActSetOpenEdit True), Submit lion_edit, Settle 0 Succeeded,
      Click (ActSetConfirmDelete True), Click ActHandleDeleteSpecies,
      Settle 0 (Failed (NonError None))]"

section \<open>The edit dialog: validation and submission\<close>


lemma speciesSchema_Inr:
  assumes "speciesSchema v = Inr data"
  shows "data_scientific_name data = val_scientific_name v"
    and "data_common_name data = val_common_name v"
    and "kingdom_enum (val_kingdom v) = Some (data_kingdom data)"
    and "data_total_population data = val_total_population v"
    and "data_description data = val_description v"
    and "val_scientific_name v \<noteq> []"
    and "val_total_population v \<noteq> Some NaN"
  using assms
  by (auto simp: speciesSchema_def Let_def check_scientific_name_def check_kingdom_def
      check_total_population_def
      split: list.splits option.splits if_splits jsnumber.splits)

lemma speciesSchema_Inl:
  assumes "speciesSchema v = Inl errs"
  shows "errs = check_scientific_name (val_scientific_name v) @ check_kingdom (val_kingdom v)
               @ check_total_population (val_total_population v)"
  using assms
  by (auto simp: speciesSchema_def Let_def split: list.splits option.splits)

lemma speciesSchema_Inl_nonempty:
  assumes "speciesSchema v = Inl errs"
  shows "errs \<noteq> []"
  using assms
  by (auto simp: speciesSchema_def Let_def check_kingdom_def
      split: list.splits option.splits)


lemma FormData_eta:
  "\<lparr> data_scientific_name = data_scientific_name data,
     data_common_name = data_common_name data,
     data_kingdom = data_kingdom data,
     data_total_population = data_total_population data,
     data_description = data_description data \<rparr> = (data :: FormData)"
  by simp

lemma doOnSubmit_Succeeded:
  "doOnSubmit species data Succeeded =
     [SetLoading True, SupabaseUpdate data (id' species),
      OnSpeciesUpdated
        \<lparr> id' = id' species, author = author species,
          scientific_name = data_scientific_name data,
          common_name = data_common_name data,
          kingdom = data_kingdom data,
          total_population = data_total_population data,
          description = data_description data,
          image' = image' species \<rparr>,
      ToastCall (Toast ''Species updated''
                   ''The species information has been updated successfully.'' Normal),
      SetOpen False, SetLoading False]"
  by (simp add: doOnSubmit_def doOnSubmit_request_def doOnSubmit_resume_def)

lemma doOnSubmit_Failed:
  "doOnSubmit species data (Failed e) =
     [SetLoading True, SupabaseUpdate data (id' species)]
     @ (case e of ErrorInstance message \<Rightarrow>
                    [ToastCall (Toast ''Error updating species'' message Destructive)]
                | NonError _ \<Rightarrow> [])
     @ [SetLoading False]"
  by (simp add: doOnSubmit_def doOnSubmit_request_def doOnSubmit_resume_def)

text \<open>
  C1: for every valid form input, a successful submit invokes the update callback
  once, with the record whose five editable fields come from the form and whose id,
  author and image are those of the input record; it calls \<^verbatim>\<open>setOpen(false)\<close> and leaves
  \<^verbatim>\<open>loading\<close> false.
\<close>

theorem C1_successful_submit:
  assumes valid: "speciesSchema (getValues inp) = Inr data"
  shows "callbacks (handleSubmit species inp Succeeded) =
           [\<lparr> id' = id' species, author = author species,
              scientific_name = in_scientific_name inp,
              common_name = in_common_name inp,
              kingdom = data_kingdom data,
              total_population = population_value (in_total_population inp),
              description = in_description inp,
              image' = image' species \<rparr>]
       \<and> kingdom_enum (in_kingdom inp) = Some (data_kingdom data)
       \<and> setOpen_calls (handleSubmit species inp Succeeded) = [False]
       \<and> setLoading_calls (handleSubmit species inp Succeeded) = [True, False]
       \<and> openEdit (perform s (handleSubmit species inp Succeeded)) = False
       \<and> loading (perform s (handleSubmit species inp Succeeded)) = False"
proof -
  have h: "handleSubmit species inp Succeeded = doOnSubmit species data Succeeded"
    using valid by (simp add: handleSubmit_def)
  note d = speciesSchema_Inr [OF valid]
  show ?thesis
    unfolding h doOnSubmit_Succeeded
    using d
    by (simp add: callbacks_def setOpen_calls_def setLoading_calls_def perform_def getValues_def)
qed

theorem C1_successful_submit_witness:
  "speciesSchema (getValues lion_edit) =
     Inr \<lparr> data_scientific_name = ''Panthera leo leo'',
           data_common_name = Some ''African lion'',
           data_kingdom = Animalia,
           data_total_population = Some (Num 23000),
           data_description = Some ''Lives in prides.'' \<rparr>
   \<and> callbacks (handleSubmit lion lion_edit Succeeded) =
       [\<lparr> id' = 7, author = ''user-1'', scientific_name = ''Panthera leo leo'',
          common_name = Some ''African lion'', kingdom = Animalia,
          total_population = Some (Num 23000),
          description = Some ''Lives in prides.'', image' = None \<rparr>]
   \<and> openEdit (perform (mount lion ''user-1'') (handleSubmit lion lion_edit Succeeded)) = False"
proof -
  have v: "speciesSchema (getValues lion_edit) =
     Inr \<lparr> data_scientific_name = ''Panthera leo leo'',
           data_common_name = Some ''African lion'',
           data_kingdom = Animalia,
           data_total_population = Some (Num 23000),
           data_description = Some ''Lives in prides.'' \<rparr>"
    by code_simp
  have p: "population_value (Changed ''23000'') = Some (Num 23000)"
    by code_simp
  show ?thesis
    using v p C1_successful_submit [OF v, of lion "mount lion ''user-1''"]
    by (simp add: lion_def lion_edit_def)
qed


text \<open>
  C2: when the update request fails, the callback is not invoked, \<^verbatim>\<open>setOpen\<close> is not
  called, so the dialog's open flag stays as it was, the cached record is untouched,
  and \<^verbatim>\<open>loading\<close> is set back to false. Exactly one update request was sent.
\<close>

theorem C2_failed_submit:
  "callbacks (doOnSubmit species data (Failed e)) = []
   \<and> setOpen_calls (doOnSubmit species data (Failed e)) = []
   \<and> setLoading_calls (doOnSubmit species data (Failed e)) = [True, False]
   \<and> remote_requests (doOnSubmit species data (Failed e)) = [SupabaseUpdate data (id' species)]
   \<and> openEdit (perform s (doOnSubmit species data (Failed e))) = openEdit s
   \<and> currentSpecies (perform s (doOnSubmit species data (Failed e))) = currentSpecies s
   \<and> loading (perform s (doOnSubmit species data (Failed e))) = False"
  unfolding doOnSubmit_Failed
  by (cases e)
     (simp_all add: callbacks_def setOpen_calls_def setLoading_calls_def remote_requests_def
        perform_def)







lemma digits_of_small: "n < 10 \<Longrightarrow> digits_of n = [''0123456789'' ! n]"
  by (subst digits_of.simps) simp

lemma digits_of_large:
  "\<not> n < 10 \<Longrightarrow> digits_of n = digits_of (n div 10) @ [''0123456789'' ! (n mod 10)]"
  by (subst digits_of.simps) simp

text \<open>
  A number that the population field is registered with passes through \<^verbatim>\<open>setValueAs\<close>
  unchanged: its decimal numeral parses back to it.
\<close>


lemma digit_char:
  assumes "d < 10"
  shows "is_digit (''0123456789'' ! d)" and "digit_value (''0123456789'' ! d) = int d"
    and "\<not> StrWhiteSpaceChar (''0123456789'' ! d)"
    and "''0123456789'' ! d \<noteq> CHR ''-''" and "''0123456789'' ! d \<noteq> CHR ''+''"
proof -
  from assms have "d \<in> {0, 1, 2, 3, 4, 5, 6, 7, 8, 9}"
    by auto
  then show "is_digit (''0123456789'' ! d)" and "digit_value (''0123456789'' ! d) = int d"
    and "\<not> StrWhiteSpaceChar (''0123456789'' ! d)"
    and "''0123456789'' ! d \<noteq> CHR ''-''" and "''0123456789'' ! d \<noteq> CHR ''+''"
    by (auto simp: is_digit_def digit_value_def StrWhiteSpaceChar_def)
qed

lemma digits_of_all_digits: "list_all is_digit (digits_of m)"
proof (induction m rule: digits_of.induct)
  case (1 n)
  show ?case
  proof (cases "n < 10")
    case True
    then show ?thesis
      by (simp add: digits_of_small digit_char)
  next
    case False
    with 1 show ?thesis
      by (simp add: digits_of_large digit_char)
  qed
qed

lemma digits_of_hd:
  "\<exists>c r. digits_of m = c # r \<and> is_digit c \<and> \<not> StrWhiteSpaceChar c
         \<and> c \<noteq> CHR ''-'' \<and> c \<noteq> CHR ''+''"
proof (induction m rule: digits_of.induct)
  case (1 n)
  show ?case
  proof (cases "n < 10")
    case True
    then show ?thesis
      by (simp add: digits_of_small digit_char)
  next
    case False
    with 1 obtain c r where "digits_of (n div 10) = c # r" "is_digit c"
      "\<not> StrWhiteSpaceChar c" "c \<noteq> CHR ''-''" "c \<noteq> CHR ''+''"
      by blast
    with False show ?thesis
      by (simp add: digits_of_large)
  qed
qed

lemma digits_value_snoc:
  "digits_value (ds @ [c]) = 10 * digits_value ds + digit_value c"
  by (simp add: digits_value_def)

lemma digits_value_digits_of: "digits_value (digits_of m) = int m"
proof (induction m rule: digits_of.induct)
  case (1 n)
  show ?case
  proof (cases "n < 10")
    case True
    then show ?thesis
      by (simp add: digits_of_small digits_value_def digit_char)
  next
    case False
    with 1 have "digits_value (digits_of (n div 10)) = int (n div 10)"
      by simp
    moreover have "int (10 * (n div 10) + n mod 10) = int n"
      by simp
    then have "10 * int (n div 10) + int (n mod 10) = int n"
      by (simp only: of_nat_add of_nat_mult of_nat_numeral)
    ultimately show ?thesis
      using False by (simp add: digits_of_large digits_value_snoc digit_char)
  qed
qed

lemma takeWhile_all: "list_all ws xs \<Longrightarrow> takeWhile ws xs = xs"
  by (simp add: list_all_iff)

lemma parseInt10_digits:
  "parseInt10 (digits_of m) = Num (int m)"
  "parseInt10 (CHR ''-'' # digits_of m) = Num (- int m)"
proof -
  obtain c r where d: "digits_of m = c # r" and c: "is_digit c" "\<not> StrWhiteSpaceChar c"
      "c \<noteq> CHR ''-''" "c \<noteq> CHR ''+''"
    using digits_of_hd by blast
  have t: "takeWhile is_digit (c # r) = c # r"
    using digits_of_all_digits [of m] unfolding d by (rule takeWhile_all)
  have v: "digits_value (c # r) = int m"
    using digits_value_digits_of [of m] unfolding d by simp
  have n: "\<not> StrWhiteSpaceChar (CHR ''-'')"
    by (simp add: StrWhiteSpaceChar_def)
  have 1: "parseInt10 (c # r) = Num (int m)"
    unfolding parseInt10_def Let_def using c(2,3,4) by (simp add: t v del: takeWhile.simps)
  have 2: "parseInt10 (CHR ''-'' # c # r) = Num (- int m)"
    unfolding parseInt10_def Let_def using n by (simp add: t v del: takeWhile.simps)
  from 1 show "parseInt10 (digits_of m) = Num (int m)"
    by (simp only: d)
  from 2 show "parseInt10 (CHR ''-'' # digits_of m) = Num (- int m)"
    by (simp only: d)
qed

lemma parseInt10_ToString:
  "parseInt10 (ToString (Number (Num n))) = Num n"
  by (cases "n < 0") (simp_all add: parseInt10_digits)

lemma registered_number_unchanged:
  "population_value (Registered (Some (Num n))) = Some (Num n)"
  by (simp add: setValueAs_def parseInt10_ToString del: ToString.simps)

lemma setValueAs_empty_string: "setValueAs (Str []) = None"
  by (simp add: setValueAs_def)

lemma setValueAs_Null: "setValueAs Null = Some NaN"
  by code_simp

text \<open>
  When the user has emptied the population input, the field is \<^verbatim>\<open>null\<close>, the schema
  raises no issue for it, and valid data is submitted with \<^verbatim>\<open>null\<close>.
\<close>

lemma emptied_population_is_null:
  assumes empty: "in_total_population inp = Changed []"
  shows "val_total_population (getValues inp) = None
       \<and> check_total_population (val_total_population (getValues inp)) = []
       \<and> (case speciesSchema (getValues inp) of
            Inl errs \<Rightarrow> ''total_population'' \<notin> fst ` set errs
          | Inr data \<Rightarrow>
              data_total_population data = None \<and>
              remote_requests (handleSubmit species inp r)
                = [SupabaseUpdate (data\<lparr>data_total_population := None\<rparr>) (id' species)] \<and>
              map total_population (callbacks (handleSubmit species inp Succeeded)) = [None])"
proof -
  have n: "val_total_population (getValues inp) = None"
    using empty by (simp add: getValues_def setValueAs_def)
  have c: "check_total_population (val_total_population (getValues inp)) = []"
    by (simp add: n check_total_population_def)
  have "case speciesSchema (getValues inp) of
            Inl errs \<Rightarrow> ''total_population'' \<notin> fst ` set errs
          | Inr data \<Rightarrow>
              data_total_population data = None \<and>
              remote_requests (handleSubmit species inp r)
                = [SupabaseUpdate (data\<lparr>data_total_population := None\<rparr>) (id' species)] \<and>
              map total_population (callbacks (handleSubmit species inp Succeeded)) = [None]"
  proof (cases "speciesSchema (getValues inp)")
    case (Inl errs)
    from speciesSchema_Inl [OF Inl] have
      "errs = check_scientific_name (val_scientific_name (getValues inp))
             @ check_kingdom (val_kingdom (getValues inp))"
      by (simp add: c)
    then have "''total_population'' \<notin> fst ` set errs"
      by (auto simp: check_scientific_name_def check_kingdom_def split: option.splits if_splits)
    with Inl show ?thesis by simp
  next
    case (Inr data)
    have d: "data_total_population data = None"
      using speciesSchema_Inr(4) [OF Inr] n by simp
    have h: "handleSubmit species inp r = doOnSubmit species data r" for r
      using Inr by (simp add: handleSubmit_def)
    have rq: "remote_requests (doOnSubmit species data r) = [SupabaseUpdate data (id' species)]"
      by (cases r; cases "case r of Failed e \<Rightarrow> e")
         (simp_all add: doOnSubmit_def doOnSubmit_request_def doOnSubmit_resume_def
            remote_requests_def split: thrown.splits)
    have cb: "map total_population (callbacks (doOnSubmit species data Succeeded)) = [None]"
      by (simp add: doOnSubmit_Succeeded callbacks_def d)
    have "data\<lparr>data_total_population := None\<rparr> = data"
      using d by simp
    with Inr d rq cb show ?thesis
      by (simp add: h)
  qed
  with n c show ?thesis by simp
qed

text \<open>
  C4: a population input that is registered with \<^verbatim>\<open>null\<close> and left alone shows the
  empty string, but the field's value is NaN, not \<^verbatim>\<open>null\<close>: \<^verbatim>\<open>setValueAs\<close> receives
  \<^verbatim>\<open>null\<close>, which is not the empty string, and parses it. The schema rejects NaN, so
  whatever the other fields hold, the submit ends with a field error for the
  population and no request is sent.
\<close>

theorem C4_untouched_empty_population_rejected:
  "input_text (Registered None) = []
   \<and> population_value (Registered None) = Some NaN
   \<and> speciesSchema (getValues (inp\<lparr>in_total_population := Registered None\<rparr>))
       = Inl (check_scientific_name (in_scientific_name inp) @ check_kingdom (in_kingdom inp)
              @ [(''total_population'', InvalidType)])
   \<and> handleSubmit species (inp\<lparr>in_total_population := Registered None\<rparr>) r
       = [SetFieldErrors
            (check_scientific_name (in_scientific_name inp) @ check_kingdom (in_kingdom inp)
             @ [(''total_population'', InvalidType)])]
   \<and> remote_requests (handleSubmit species (inp\<lparr>in_total_population := Registered None\<rparr>) r)
       = []"
proof -
  have v: "speciesSchema (getValues (inp\<lparr>in_total_population := Registered None\<rparr>))
       = Inl (check_scientific_name (in_scientific_name inp) @ check_kingdom (in_kingdom inp)
              @ [(''total_population'', InvalidType)])"
    by (simp add: speciesSchema_def getValues_def setValueAs_Null check_total_population_def
        Let_def split: list.splits option.splits)
  show ?thesis
    by (simp add: v handleSubmit_def setValueAs_Null remote_requests_def)
qed


section \<open>The card: what is rendered\<close>

lemma trim_decompose:
  "\<exists>a b. s = a @ trim s @ b \<and> list_all StrWhiteSpaceChar a \<and> list_all StrWhiteSpaceChar b"
proof -
  let ?a = "takeWhile StrWhiteSpaceChar s"
  let ?m = "dropWhile StrWhiteSpaceChar s"
  let ?b = "rev (takeWhile StrWhiteSpaceChar (rev ?m))"
  have "rev (dropWhile StrWhiteSpaceChar (rev ?m)) @ ?b
          = rev (takeWhile StrWhiteSpaceChar (rev ?m) @ dropWhile StrWhiteSpaceChar (rev ?m))"
    by (simp only: rev_append)
  also have "\<dots> = ?m"
    by (simp only: takeWhile_dropWhile_id rev_rev_ident)
  finally have m: "?m = trim s @ ?b"
    by (simp only: trim_def)
  have "s = ?a @ ?m" by simp
  with m have "s = ?a @ trim s @ ?b" by simp
  moreover have "list_all StrWhiteSpaceChar ?a"
    unfolding list_all_iff by (blast dest: set_takeWhileD)
  moreover have "list_all StrWhiteSpaceChar ?b"
    unfolding list_all_iff set_rev by (blast dest: set_takeWhileD)
  ultimately show ?thesis by blast
qed

lemma last_dropWhile_nonempty:
  assumes "dropWhile ws xs \<noteq> []"
  shows "last (dropWhile ws xs) = last xs"
proof -
  have "last (takeWhile ws xs @ dropWhile ws xs) = last (dropWhile ws xs)"
    using assms by (rule last_appendR)
  then show ?thesis by simp
qed

lemma trim_no_outer_space:
  assumes "trim s \<noteq> []"
  shows "\<not> StrWhiteSpaceChar (hd (trim s)) \<and> \<not> StrWhiteSpaceChar (last (trim s))"
proof -
  let ?m = "dropWhile StrWhiteSpaceChar s"
  let ?r = "dropWhile StrWhiteSpaceChar (rev ?m)"
  have t: "trim s = rev ?r" by (simp add: trim_def)
  from assms t have r: "?r \<noteq> []" by simp
  then have "\<not> StrWhiteSpaceChar (hd ?r)"
    by (rule hd_dropWhile)
  then have l: "\<not> StrWhiteSpaceChar (last (trim s))"
    using r by (simp add: t last_rev)
  from r have "rev ?m \<noteq> []"
    by (cases "rev ?m") simp_all
  then have m: "?m \<noteq> []"
    by (simp only: rev_is_Nil_conv not_False_eq_True)
  then have hm: "\<not> StrWhiteSpaceChar (hd ?m)"
    by (rule hd_dropWhile)
  have "last ?r = last (rev ?m)"
    using r by (rule last_dropWhile_nonempty)
  also have "\<dots> = hd ?m"
    by (simp add: last_rev)
  finally have "hd (trim s) = hd ?m"
    using r by (simp add: t hd_rev)
  with hm l show ?thesis by simp
qed

lemma trim_replicate_A:
  "trim (replicate n (CHR ''A'')) = replicate n (CHR ''A'')"
proof (cases n)
  case 0
  then show ?thesis by (simp add: trim_def)
next
  case (Suc k)
  have w: "\<not> StrWhiteSpaceChar (CHR ''A'')"
    by (simp add: StrWhiteSpaceChar_def)
  have "dropWhile StrWhiteSpaceChar (replicate (Suc k) (CHR ''A'')) = replicate (Suc k) (CHR ''A'')"
    using w by simp
  then show ?thesis
    using w Suc by (simp add: trim_def del: replicate.simps)
qed

lemma preview_of_long_description:
  "description_preview (cur\<lparr>description := Some (replicate 200 (CHR ''A''))\<rparr>)
     = replicate 150 (CHR ''A'') @ ''...''"
  by (simp add: description_preview_def slice0_def trim_replicate_A)


lemma length_trim: "length (trim s) \<le> length s"
proof -
  have "length (trim s) \<le> length (dropWhile StrWhiteSpaceChar s)"
    unfolding trim_def length_rev
    by (metis length_dropWhile_le length_rev)
  also have "\<dots> \<le> length s"
    by (rule length_dropWhile_le)
  finally show ?thesis .
qed

text \<open>
  C5, as the code has it: the preview is the first 150 characters of the description,
  trimmed, followed by \<open>...\<close> when the description is a non-empty string; it is
  the empty string when the description is \<^verbatim>\<open>null\<close> or the empty string. It never
  has more than 153 characters.
\<close>

theorem C5_description_preview:
  "description_preview cur =
     (case description cur of
        None \<Rightarrow> []
      | Some d \<Rightarrow> if d = [] then [] else trim (take 150 d) @ ''...'')
   \<and> length (description_preview cur) \<le> 153"
proof -
  have 1: "description_preview cur =
     (case description cur of
        None \<Rightarrow> []
      | Some d \<Rightarrow> if d = [] then [] else trim (take 150 d) @ ''...'')"
    by (simp add: description_preview_def slice0_def split: option.splits)
  have "length (trim (take 150 d)) \<le> 150" for d
    using length_trim [of "take 150 d"] by simp
  then have 2: "length (description_preview cur) \<le> 153"
    by (simp add: 1 split: option.splits)
  from 1 2 show ?thesis by simp
qed

text \<open>
  C5, as the claim has it, fails for a record whose description is the empty string:
  the description exists, and the preview is empty instead of \<open>...\<close>.
\<close>

theorem C5_empty_description_counterexample:
  "description (lion\<lparr>description := Some []\<rparr>) = Some []
   \<and> description_preview (lion\<lparr>description := Some []\<rparr>) = []
   \<and> description_preview (lion\<lparr>description := Some []\<rparr>) \<noteq> trim (take 150 []) @ ''...''"
  by (simp add: description_preview_def slice0_def trim_def)

lemma population_text_nonzero:
  "n \<noteq> 0 \<Longrightarrow> population_text (cur\<lparr>total_population := Some (Num n)\<rparr>) = toLocaleString n"
  by (simp add: population_text_def)

lemma population_text_absent:
  "population_text (cur\<lparr>total_population := None\<rparr>) = ''N/A''"
  by (simp add: population_text_def)


lemma toLocaleString_1234567: "toLocaleString 1234567 = ''1,234,567''"
  by (simp add: toLocaleString_def digits_of_small digits_of_large)

lemma toLocaleString_0: "toLocaleString 0 = ''0''"
  by (simp add: toLocaleString_def digits_of_small digits_of_large)

lemma population_text_1234567:
  "population_text (cur\<lparr>total_population := Some (Num 1234567)\<rparr>) = ''1,234,567''"
  using population_text_nonzero [of 1234567 cur] by (simp add: toLocaleString_1234567)

text \<open>
  C6: a record whose population is present and is zero gets the placeholder, not the
  number: the test is on the truthiness of the population, and zero is falsy.
\<close>

theorem C6_zero_population_renders_placeholder:
  "population_text (cur\<lparr>total_population := Some (Num 0)\<rparr>) = ''N/A''
   \<and> Field ''Total Population:'' ''N/A''
        \<in> set (SpeciesCard (s\<lparr>open' := True,
                  currentSpecies := cur\<lparr>total_population := Some (Num 0)\<rparr>\<rparr>))"
  by (simp add: population_text_def SpeciesCard_def Dialog_def Let_def)


lemma offered_Nil: "offered [] = []"
  by (simp add: offered_def)

lemma offered_Cons: "offered (n # ns) = handler_of n @ offered ns"
  by (simp add: offered_def)

lemma offered_append: "offered (xs @ ys) = offered xs @ offered ys"
  by (simp add: offered_def)

lemma offered_SpeciesCard:
  "offered (SpeciesCard s) =
     [ActSetOpen True]
     @ (if author (prop_species s) = prop_sessionId s
        then [ActSetOpenEdit True, ActSetConfirmDelete True] else [])
     @ (if confirmDelete s then [ActSetConfirmDelete False, ActHandleDeleteSpecies] else [])"
  by (simp add: SpeciesCard_def Dialog_def EditSpeciesDialog_def Let_def
      offered_Nil offered_Cons offered_append)

lemma can_submit_SpeciesCard:
  "can_submit (SpeciesCard s) \<longleftrightarrow> openEdit s \<and> \<not> loading s"
  by (simp add: can_submit_def SpeciesCard_def Dialog_def EditSpeciesDialog_def Let_def)

text \<open>
  C7: the Edit and the Delete button are in the rendered output exactly when the author
  of the record prop is the session id. Otherwise no rendered element offers their
  handlers, so a click on them cannot happen.
\<close>

theorem C7_controls_only_for_author:
  "(Button ''Edit'' (ActSetOpenEdit True) \<in> set (SpeciesCard s)
      \<longleftrightarrow> author (prop_species s) = prop_sessionId s)
   \<and> (Button ''Delete'' (ActSetConfirmDelete True) \<in> set (SpeciesCard s)
      \<longleftrightarrow> author (prop_species s) = prop_sessionId s)
   \<and> (ActSetOpenEdit True \<in> set (offered (SpeciesCard s))
      \<longleftrightarrow> author (prop_species s) = prop_sessionId s)
   \<and> (ActSetConfirmDelete True \<in> set (offered (SpeciesCard s))
      \<longleftrightarrow> author (prop_species s) = prop_sessionId s)
   \<and> (step s (Click (ActSetOpenEdit True)) = None
      \<longleftrightarrow> author (prop_species s) \<noteq> prop_sessionId s)
   \<and> (step s (Click (ActSetConfirmDelete True)) = None
      \<longleftrightarrow> author (prop_species s) \<noteq> prop_sessionId s)"
proof -
  have b: "Button ''Edit'' (ActSetOpenEdit True) \<in> set (SpeciesCard s)
      \<longleftrightarrow> author (prop_species s) = prop_sessionId s"
    by (simp add: SpeciesCard_def Dialog_def EditSpeciesDialog_def Let_def)
  have d: "Button ''Delete'' (ActSetConfirmDelete True) \<in> set (SpeciesCard s)
      \<longleftrightarrow> author (prop_species s) = prop_sessionId s"
    by (simp add: SpeciesCard_def Dialog_def EditSpeciesDialog_def Let_def)
  have o: "ActSetOpenEdit True \<in> set (offered (SpeciesCard s))
      \<longleftrightarrow> author (prop_species s) = prop_sessionId s"
    by (simp add: offered_SpeciesCard)
  have p: "ActSetConfirmDelete True \<in> set (offered (SpeciesCard s))
      \<longleftrightarrow> author (prop_species s) = prop_sessionId s"
    by (simp add: offered_SpeciesCard)
  have so: "step s (Click (ActSetOpenEdit True)) = None
      \<longleftrightarrow> author (prop_species s) \<noteq> prop_sessionId s"
    by (simp add: step_def o)
  have sp: "step s (Click (ActSetConfirmDelete True)) = None
      \<longleftrightarrow> author (prop_species s) \<noteq> prop_sessionId s"
    by (simp add: step_def p)
  from b d o p so sp show ?thesis by blast
qed

theorem C7_controls_only_for_author_witness:
  "Button ''Edit'' (ActSetOpenEdit True) \<in> set (SpeciesCard (mount lion ''user-1''))
   \<and> Button ''Delete'' (ActSetConfirmDelete True) \<in> set (SpeciesCard (mount lion ''user-1''))
   \<and> Button ''Edit'' (ActSetOpenEdit True) \<notin> set (SpeciesCard (mount lion ''user-2''))
   \<and> Button ''Delete'' (ActSetConfirmDelete True) \<notin> set (SpeciesCard (mount lion ''user-2''))
   \<and> step (mount lion ''user-2'') (Click (ActSetOpenEdit True)) = None"
  using C7_controls_only_for_author [of "mount lion ''user-1''"]
        C7_controls_only_for_author [of "mount lion ''user-2''"]
  by (simp add: mount_def lion_def)


section \<open>The card: deleting\<close>

lemma handleDeleteSpecies_Succeeded:
  "handleDeleteSpecies cur Succeeded =
     [SupabaseDelete (id' cur),
      ToastCall (Toast ''Species deleted'' ''The species has been deleted successfully.'' Normal),
      RouterRefresh, SetConfirmDelete False]"
  by (simp add: handleDeleteSpecies_def handleDeleteSpecies_request_def
      handleDeleteSpecies_resume_def)

lemma handleDeleteSpecies_Failed:
  "handleDeleteSpecies cur (Failed e) =
     [SupabaseDelete (id' cur),
      ToastCall (Toast ''Error deleting species''
                   (case e of ErrorInstance message \<Rightarrow> message
                            | NonError _ \<Rightarrow> ''Unknown error'') Destructive),
      SetConfirmDelete False]"
  by (simp add: handleDeleteSpecies_def handleDeleteSpecies_request_def
      handleDeleteSpecies_resume_def)

lemma handleDeleteSpecies_requests:
  "remote_requests (handleDeleteSpecies cur r) = [SupabaseDelete (id' cur)]"
  by (cases r) (simp_all add: handleDeleteSpecies_Succeeded handleDeleteSpecies_Failed
      remote_requests_def)

lemma handleDeleteSpecies_closes:
  "setConfirmDelete_calls (handleDeleteSpecies cur r) = [False]"
  by (cases r) (simp_all add: handleDeleteSpecies_Succeeded handleDeleteSpecies_Failed
      setConfirmDelete_calls_def)

lemma step_cancel:
  "confirmDelete s \<Longrightarrow>
     step s (Click (ActSetConfirmDelete False)) = Some (s\<lparr>confirmDelete := False\<rparr>)"
  by (simp add: step_def offered_SpeciesCard on_click_def)

lemma step_confirm:
  "confirmDelete s \<Longrightarrow>
     step s (Click ActHandleDeleteSpecies) =
       Some (s\<lparr>remote_calls := remote_calls s @ [SupabaseDelete (id' (currentSpecies s))],
               suspended := suspended s @ [AwaitDelete]\<rparr>)"
  by (simp add: step_def offered_SpeciesCard on_click_def perform_def
      handleDeleteSpecies_request_def)

lemma settle_delete:
  assumes "suspended s = pre @ [AwaitDelete]"
  shows "step s (Settle (length pre) r) =
           Some (perform (s\<lparr>suspended := pre\<rparr>) (handleDeleteSpecies_resume r))"
  using assms by (simp add: step_def on_settle_def Let_def)

lemma perform_delete_resume:
  "confirmDelete (perform s (handleDeleteSpecies_resume r)) = False
   \<and> remote_calls (perform s (handleDeleteSpecies_resume r)) = remote_calls s
   \<and> suspended (perform s (handleDeleteSpecies_resume r)) = suspended s
   \<and> currentSpecies (perform s (handleDeleteSpecies_resume r)) = currentSpecies s"
  by (cases r) (simp_all add: handleDeleteSpecies_resume_def perform_def)

text \<open>
  C8: with the confirmation dialog open, Cancel only sets \<^verbatim>\<open>confirmDelete\<close> to false:
  no request is sent and nothing is left pending. Confirm sends exactly one delete
  request, keyed by the id of the cached record; when that request settles, with
  either outcome, \<^verbatim>\<open>confirmDelete\<close> is false and no further request has been sent.
\<close>

theorem C8_delete_flow:
  assumes "confirmDelete s"
  shows "step s (Click (ActSetConfirmDelete False)) = Some (s\<lparr>confirmDelete := False\<rparr>)
       \<and> remote_requests (handleDeleteSpecies (currentSpecies s) r)
           = [SupabaseDelete (id' (currentSpecies s))]
       \<and> setConfirmDelete_calls (handleDeleteSpecies (currentSpecies s) r) = [False]
       \<and> step s (Click ActHandleDeleteSpecies)
           = Some (s\<lparr>remote_calls := remote_calls s @ [SupabaseDelete (id' (currentSpecies s))],
                     suspended := suspended s @ [AwaitDelete]\<rparr>)
       \<and> map_option confirmDelete
            (run s [Click ActHandleDeleteSpecies, Settle (length (suspended s)) r]) = Some False
       \<and> map_option remote_calls
            (run s [Click ActHandleDeleteSpecies, Settle (length (suspended s)) r])
           = Some (remote_calls s @ [SupabaseDelete (id' (currentSpecies s))])"
proof -
  let ?s1 = "s\<lparr>remote_calls := remote_calls s @ [SupabaseDelete (id' (currentSpecies s))],
                suspended := suspended s @ [AwaitDelete]\<rparr>"
  have c: "step s (Click ActHandleDeleteSpecies) = Some ?s1"
    using assms by (rule step_confirm)
  have "suspended ?s1 = suspended s @ [AwaitDelete]"
    by simp
  from settle_delete [OF this]
  have st: "step ?s1 (Settle (length (suspended s)) r)
          = Some (perform (?s1\<lparr>suspended := suspended s\<rparr>) (handleDeleteSpecies_resume r))" .
  have r: "run s [Click ActHandleDeleteSpecies, Settle (length (suspended s)) r]
          = Some (perform (?s1\<lparr>suspended := suspended s\<rparr>) (handleDeleteSpecies_resume r))"
    by (simp only: run.simps c st option.case)
  show ?thesis
    using step_cancel [OF assms] c
    by (simp only: r handleDeleteSpecies_requests handleDeleteSpecies_closes
        perform_delete_resume option.map) simp
qed

theorem C8_delete_flow_witness:
  "confirmDelete ((mount lion ''user-1'')\<lparr>confirmDelete := True\<rparr>)
   \<and> map_option remote_calls
        (step ((mount lion ''user-1'')\<lparr>confirmDelete := True\<rparr>) (Click (ActSetConfirmDelete False)))
       = Some []
   \<and> map_option remote_calls
        (run ((mount lion ''user-1'')\<lparr>confirmDelete := True\<rparr>)
           [Click ActHandleDeleteSpecies, Settle 0 (Failed (NonError None))])
       = Some [SupabaseDelete 7]
   \<and> map_option confirmDelete
        (run ((mount lion ''user-1'')\<lparr>confirmDelete := True\<rparr>)
           [Click ActHandleDeleteSpecies, Settle 0 (Failed (NonError None))])
       = Some False"
proof -
  let ?s = "(mount lion ''user-1'')\<lparr>confirmDelete := True\<rparr>"
  have h: "confirmDelete ?s"
    by simp
  have l: "length (suspended ?s) = 0" and rc: "remote_calls ?s = []"
    and i: "id' (currentSpecies ?s) = 7"
    by (simp_all add: mount_def lion_def)
  note t = C8_delete_flow [OF h, of "Failed (NonError None)", unfolded l rc i append_Nil]
  from t have "step ?s (Click (ActSetConfirmDelete False)) = Some (?s\<lparr>confirmDelete := False\<rparr>)"
    by (rule conjunct1)
  then have 1: "map_option remote_calls (step ?s (Click (ActSetConfirmDelete False))) = Some []"
    by (simp add: mount_def)
  from t have 2: "map_option remote_calls
        (run ?s [Click ActHandleDeleteSpecies, Settle 0 (Failed (NonError None))])
       = Some [SupabaseDelete 7]"
    by blast
  from t have 3: "map_option confirmDelete
        (run ?s [Click ActHandleDeleteSpecies, Settle 0 (Failed (NonError None))])
       = Some False"
    by blast
  from h 1 2 3 show ?thesis
    by (intro conjI)
qed

text \<open>
  C9: when the request fails, the delete handler always shows one destructive toast;
  its text is the message of the failure when the failure is an instance of
  \<^verbatim>\<open>Error\<close> and \<open>Unknown error\<close> otherwise, so also when the failure has no
  message. The submit handler of the edit dialog shows a destructive toast with the
  message when the failure is an instance of \<^verbatim>\<open>Error\<close>, and no toast otherwise.
\<close>

theorem C9_failure_notifications:
  "toast_calls (handleDeleteSpecies cur (Failed e)) =
     [Toast ''Error deleting species''
        (case e of ErrorInstance message \<Rightarrow> message | NonError _ \<Rightarrow> ''Unknown error'')
        Destructive]
   \<and> toast_calls (handleDeleteSpecies cur (Failed (NonError None))) =
       [Toast ''Error deleting species'' ''Unknown error'' Destructive]
   \<and> toast_calls (doOnSubmit species data (Failed e)) =
       (case e of
          ErrorInstance message \<Rightarrow> [Toast ''Error updating species'' message Destructive]
        | NonError _ \<Rightarrow> [])
   \<and> toast_calls (doOnSubmit species data (Failed (NonError None))) = []"
  by (cases e) (simp_all add: handleDeleteSpecies_Failed doOnSubmit_Failed toast_calls_def)


section \<open>The card: the cached record keeps its identity\<close>

lemma same_identity_refl: "same_identity a a"
  by (simp add: same_identity_def)

lemma card_inv_mount: "card_inv species (mount species sessionId)"
  by (simp add: card_inv_def mount_def same_identity_refl)

lemma card_inv_ui:
  "card_inv sp0 (s\<lparr>open' := b\<rparr>) = card_inv sp0 s"
  "card_inv sp0 (s\<lparr>openEdit := b\<rparr>) = card_inv sp0 s"
  "card_inv sp0 (s\<lparr>confirmDelete := b\<rparr>) = card_inv sp0 s"
  "card_inv sp0 (s\<lparr>prop_species := p, prop_sessionId := q\<rparr>) = card_inv sp0 s"
  by (simp_all add: card_inv_def)

lemma card_inv_submit_request:
  assumes "card_inv sp0 s"
  shows "card_inv sp0 ((perform s (doOnSubmit_request (currentSpecies s) data))
                         \<lparr>suspended := suspended s @ [AwaitUpdate (currentSpecies s) data]\<rparr>)"
  using assms
  by (auto simp: card_inv_def perform_def doOnSubmit_request_def same_identity_def)

lemma card_inv_submit_resume:
  assumes "card_inv sp0 s" and "same_identity sp0 species"
  shows "card_inv sp0 (perform s (doOnSubmit_resume species data r))"
proof (cases r)
  case Succeeded
  with assms show ?thesis
    by (auto simp: card_inv_def perform_def doOnSubmit_resume_def same_identity_def)
next
  case (Failed e)
  with assms show ?thesis
    by (cases e) (simp_all add: card_inv_def perform_def doOnSubmit_resume_def)
qed

lemma card_inv_delete_request:
  assumes "card_inv sp0 s"
  shows "card_inv sp0 ((perform s (handleDeleteSpecies_request (currentSpecies s)))
                         \<lparr>suspended := suspended s @ [AwaitDelete]\<rparr>)"
  using assms
  by (auto simp: card_inv_def perform_def handleDeleteSpecies_request_def same_identity_def)

lemma card_inv_delete_resume:
  assumes "card_inv sp0 s"
  shows "card_inv sp0 (perform s (handleDeleteSpecies_resume r))"
  using assms
  by (cases r) (simp_all add: card_inv_def perform_def handleDeleteSpecies_resume_def)

lemma card_inv_field_errors:
  assumes "card_inv sp0 s"
  shows "card_inv sp0 (perform s [SetFieldErrors errs])"
  using assms by (simp add: card_inv_def perform_def)

lemma card_inv_remove:
  assumes "card_inv sp0 s"
  shows "card_inv sp0 (s\<lparr>suspended := take i (suspended s) @ drop (Suc i) (suspended s)\<rparr>)"
proof -
  have "set (take i (suspended s)) \<subseteq> set (suspended s)"
    by (rule set_take_subset)
  moreover have "set (drop (Suc i) (suspended s)) \<subseteq> set (suspended s)"
    by (rule set_drop_subset)
  ultimately show ?thesis
    using assms by (auto simp: card_inv_def list_all_iff)
qed

lemma card_inv_captured:
  assumes "card_inv sp0 s" and "i < length (suspended s)"
    and "suspended s ! i = AwaitUpdate species data"
  shows "same_identity sp0 species"
proof -
  have "suspended s ! i \<in> set (suspended s)"
    using assms(2) by (rule nth_mem)
  with assms(1) have "captured_ok sp0 (suspended s ! i)"
    by (simp add: card_inv_def list_all_iff)
  with assms(3) show ?thesis by simp
qed

lemma card_inv_on_click:
  assumes "card_inv sp0 s"
  shows "card_inv sp0 (on_click s a)"
  using assms
  by (cases a) (simp_all add: on_click_def card_inv_ui card_inv_delete_request)

lemma card_inv_on_submit:
  assumes "card_inv sp0 s"
  shows "card_inv sp0 (on_submit s inp)"
  using assms
  by (cases "speciesSchema (getValues inp)")
     (simp_all add: on_submit_def card_inv_field_errors card_inv_submit_request)

lemma card_inv_on_settle:
  assumes "card_inv sp0 s" and "i < length (suspended s)"
  shows "card_inv sp0 (on_settle s i r)"
proof (cases "suspended s ! i")
  case (AwaitUpdate species data)
  from card_inv_captured [OF assms this] have "same_identity sp0 species" .
  with card_inv_remove [OF assms(1), of i] show ?thesis
    by (simp add: on_settle_def Let_def AwaitUpdate card_inv_submit_resume)
next
  case AwaitDelete
  with card_inv_remove [OF assms(1), of i] show ?thesis
    by (simp add: on_settle_def Let_def card_inv_delete_resume)
qed

lemma card_inv_step:
  assumes "card_inv sp0 s" and "step s e = Some s'"
  shows "card_inv sp0 s'"
proof (cases e)
  case (Click a)
  with assms show ?thesis
    by (auto simp: step_def card_inv_on_click split: if_splits)
next
  case (Dismiss d)
  with assms show ?thesis
    by (cases d) (auto simp: step_def card_inv_ui split: if_splits)
next
  case (Submit inp)
  with assms show ?thesis
    by (auto simp: step_def card_inv_on_submit split: if_splits)
next
  case (Settle i r)
  with assms show ?thesis
    by (auto simp: step_def card_inv_on_settle split: if_splits)
next
  case (Rerender p q)
  with assms show ?thesis
    by (auto simp: step_def card_inv_ui)
qed

lemma card_inv_run:
  assumes "card_inv sp0 s" and "run s evs = Some s'"
  shows "card_inv sp0 s'"
  using assms
proof (induction evs arbitrary: s)
  case Nil
  then show ?case by simp
next
  case (Cons e evs)
  from Cons.prems(2) obtain s1 where
    1: "step s e = Some s1" and 2: "run s1 evs = Some s'"
    by (auto split: option.splits)
  from card_inv_step [OF Cons.prems(1) 1] have "card_inv sp0 s1" .
  from Cons.IH [OF this 2] show ?case .
qed

text \<open>
  C10: in every state that a card mounted with the record \<open>species\<close> reaches, by clicks,
  dismissals, submissions with any input, requests settling in any order with any
  outcome, and re-renders with other props, the cached record has the id, the author
  and the image of \<open>species\<close>, and every request sent, so every delete request, is
  keyed by the id of \<open>species\<close>.
\<close>

theorem C10_cached_identity_invariant:
  assumes "run (mount species sessionId) evs = Some s"
  shows "id' (currentSpecies s) = id' species
       \<and> author (currentSpecies s) = author species
       \<and> image' (currentSpecies s) = image' species
       \<and> list_all (keyed_by (id' species)) (remote_calls s)"
proof -
  have "card_inv species s"
    using card_inv_mount assms by (rule card_inv_run)
  then show ?thesis
    by (auto simp: card_inv_def same_identity_def)
qed

lemma lion_edit_valid:
  "speciesSchema (getValues lion_edit) =
     Inr \<lparr> data_scientific_name = ''Panthera leo leo'',
           data_common_name = Some ''African lion'',
           data_kingdom = Animalia,
           data_total_population = Some (Num 23000),
           data_description = Some ''Lives in prides.'' \<rparr>"
  by code_simp

lemma lion_session_run:
  "run (mount lion ''user-1'') lion_session =
     Some \<lparr> prop_species = lion, prop_sessionId = ''user-1'',
            open' = False, openEdit = False, confirmDelete = False,
            currentSpecies =
              \<lparr> id' = 7, author = ''user-1'', scientific_name = ''Panthera leo leo'',
                common_name = Some ''African lion'', kingdom = Animalia,
                total_population = Some (Num 23000),
                description = Some ''Lives in prides.'', image' = None \<rparr>,
            loading = False, field_errors = [],
            remote_calls =
              [SupabaseUpdate
                 \<lparr> data_scientific_name = ''Panthera leo leo'',
                   data_common_name = Some ''African lion'',
                   data_kingdom = Animalia,
                   data_total_population = Some (Num 23000),
                   data_description = Some ''Lives in prides.'' \<rparr> 7,
               SupabaseDelete 7],
            toasts =
              [Toast ''Species updated''
                 ''The species information has been updated successfully.'' Normal,
               Toast ''Error deleting species'' ''Unknown error'' Destructive],
            refreshes = 0, suspended = [] \<rparr>"
  by (simp add: lion_session_def mount_def step_def offered_SpeciesCard can_submit_SpeciesCard
      on_click_def on_submit_def on_settle_def perform_def lion_edit_valid
      doOnSubmit_request_def doOnSubmit_resume_def handleDeleteSpecies_request_def
      handleDeleteSpecies_resume_def lion_def)

theorem C10_cached_identity_invariant_witness:
  "run (mount lion ''user-1'') lion_session \<noteq> None
   \<and> map_option (\<lambda>s. id' (currentSpecies s)) (run (mount lion ''user-1'') lion_session)
       = Some (id' lion)
   \<and> map_option (\<lambda>s. author (currentSpecies s)) (run (mount lion ''user-1'') lion_session)
       = Some (author lion)
   \<and> map_option (\<lambda>s. image' (currentSpecies s)) (run (mount lion ''user-1'') lion_session)
       = Some (image' lion)
   \<and> map_option (\<lambda>s. scientific_name (currentSpecies s))
        (run (mount lion ''user-1'') lion_session)
       = Some ''Panthera leo leo''
   \<and> map_option (\<lambda>s. list_all (keyed_by 7) (remote_calls s))
        (run (mount lion ''user-1'') lion_session)
       = Some True"
proof -
  obtain s where r: "run (mount lion ''user-1'') lion_session = Some s"
    using lion_session_run by blast
  have n: "scientific_name (currentSpecies s) = ''Panthera leo leo''"
    using r by (auto simp: lion_session_run)
  have i: "id' lion = 7"
    by (simp add: lion_def)
  show ?thesis
    using C10_cached_identity_invariant [OF r] n
    by (simp add: r i)
qed

end
